theory Spec2Isabelle
  imports Complex_Main
begin

section \<open>Conventions of the embedding\<close>

text \<open>
  The analytics service is written in Python. Its \<^verbatim>\<open>float\<close> values are modelled by
  \<^typ>\<open>real\<close> (rounding is not modelled), its \<^verbatim>\<open>int\<close> values by \<^typ>\<open>int\<close> or
  \<^typ>\<open>nat\<close>, its \<^verbatim>\<open>str\<close> values by \<^typ>\<open>string\<close>. An exception is a value of
  type \<open>error\<close>, and a function that may raise returns \<open>error + 'a\<close>.

  A naive \<^verbatim>\<open>datetime\<close> is the number of microseconds since 1970-01-01T00:00:00 on
  the service's wall clock; \<^verbatim>\<open>datetime.now()\<close> is an argument \<open>now\<close> of every
  function that reads the clock. The source reads the clock several times inside one
  call, a few microseconds apart; the model uses one reading per call. Every timestamp
  is naive: an order timestamp with a UTC offset, which Python refuses to compare with
  the naive clock (\<^verbatim>\<open>TypeError\<close>), is outside the model.
\<close>

datatype error =
    KeyError string
  | ValueError
  | TypeError
  | JSONDecodeError
  | ValidationError
  | ZeroDivisionError
  | ConnectionError

type_synonym datetime = int

definition timedelta_minutes :: "int \<Rightarrow> int" where
  "timedelta_minutes m = m * 60000000"

definition hour :: "datetime \<Rightarrow> int" where
  "hour t = (t div 3600000000) mod 24"

text \<open>\<^verbatim>\<open>datetime.weekday()\<close>: Monday is 0; 1970-01-01 was a Thursday.\<close>

definition weekday :: "datetime \<Rightarrow> int" where
  "weekday t = (t div 86400000000 + 3) mod 7"

definition bind :: "error + 'a \<Rightarrow> ('a \<Rightarrow> error + 'b) \<Rightarrow> error + 'b" where
  "bind r f = (case r of Inl e \<Rightarrow> Inl e | Inr x \<Rightarrow> f x)"

section \<open>Configuration (config.py)\<close>

record settings =
  volatility_window_minutes :: int
  price_update_interval_seconds :: int
  high_volatility_threshold :: real
  extreme_volatility_threshold :: real
  btc_starting_price :: real
  btc_volatility_factor :: real

text \<open>The values of \<^verbatim>\<open>Settings\<close> when no environment variable overrides them.\<close>

definition default_settings :: settings where
  "default_settings =
     \<lparr> volatility_window_minutes = 1,
       price_update_interval_seconds = 1,
       high_volatility_threshold = 5 / 100,
       extreme_volatility_threshold = 10 / 100,
       btc_starting_price = 45000,
       btc_volatility_factor = 2 / 100 \<rparr>"

section \<open>Volatility engine (volatility\_calculator.py)\<close>

text \<open>One entry of \<^verbatim>\<open>price_history\<close>: the dictionary with the keys
  \<^verbatim>\<open>'price'\<close>, \<^verbatim>\<open>'timestamp'\<close> and \<^verbatim>\<open>'change'\<close>.\<close>

record price_point =
  pp_price :: real
  pp_timestamp :: datetime
  pp_change :: real

record volatility_calculator =
  vc_settings :: settings
  price_history :: "price_point list"
  current_price :: real
  last_update :: datetime
  running :: bool

text \<open>\<^verbatim>\<open>VolatilityCalculator.__init__\<close>.\<close>

definition init_calculator :: "settings \<Rightarrow> datetime \<Rightarrow> volatility_calculator" where
  "init_calculator cfg now =
     \<lparr> vc_settings = cfg, price_history = [], current_price = btc_starting_price cfg,
       last_update = now, running = False \<rparr>"

text \<open>\<^verbatim>\<open>deque(maxlen=1000).append\<close>: the oldest entry leaves when the deque is full.\<close>

definition deque_append :: "'a list \<Rightarrow> 'a \<Rightarrow> 'a list" where
  "deque_append xs x =
     (let ys = xs @ [x] in if length ys > 1000 then drop (length ys - 1000) ys else ys)"

text \<open>
  \<^verbatim>\<open>_update_price\<close>. The two random draws are arguments: \<open>random_shock\<close> is
  \<^verbatim>\<open>np.random.normal(0, 1)\<close> and \<open>u\<close> is \<^verbatim>\<open>random.random()\<close>.
\<close>

definition update_price :: "volatility_calculator \<Rightarrow> datetime \<Rightarrow> real \<Rightarrow> real \<Rightarrow> volatility_calculator" where
  "update_price self now random_shock u =
     (let dt = 1 / 86400;
          drift = 1 / 10000;
          volatility = btc_volatility_factor (vc_settings self);
          current_hour = hour now;
          volatility = (if 2 \<le> current_hour \<and> current_hour \<le> 6 then volatility * (3 / 2)
                        else if 14 \<le> current_hour \<and> current_hour \<le> 18 then volatility * (12 / 10)
                        else volatility);
          random_shock = (if u < 1 / 1000 then random_shock * 5 else random_shock);
          price_change = current_price self * (drift * dt + volatility * sqrt dt * random_shock);
          new_price = max (current_price self + price_change) 1000
      in self \<lparr> price_history :=
                  deque_append (price_history self)
                    \<lparr> pp_price = new_price, pp_timestamp = now, pp_change = price_change \<rparr>,
                current_price := new_price,
                last_update := now \<rparr>)"

text \<open>
  \<^verbatim>\<open>start_btc_feed\<close>: one call of \<^verbatim>\<open>_update_price\<close> per tick until the feed is
  stopped. A tick is the clock reading and the two random draws of that call.
\<close>

definition start_btc_feed ::
  "volatility_calculator \<Rightarrow> (datetime \<times> real \<times> real) list \<Rightarrow> volatility_calculator" where
  "start_btc_feed self ticks =
     fold (\<lambda>(now, random_shock, u) self. update_price self now random_shock u) ticks
       (self \<lparr> running := True \<rparr>)"

text \<open>
  The loop of \<^verbatim>\<open>get_current_volatility\<close> (and of \<^verbatim>\<open>get_volatility_percentile\<close>)
  over consecutive prices: \<^verbatim>\<open>(p[i] - p[i-1]) / p[i-1]\<close> for \<^verbatim>\<open>i = 1 .. len-1\<close>.
  Python's division raises \<^verbatim>\<open>ZeroDivisionError\<close> on a zero divisor.
\<close>

fun simple_returns :: "real list \<Rightarrow> error + real list" where
  "simple_returns (a # b # ps) =
     (if a = 0 then Inl ZeroDivisionError
      else bind (simple_returns (b # ps)) (\<lambda>rs. Inr ((b - a) / a # rs)))"
| "simple_returns ps = Inr []"

text \<open>\<^verbatim>\<open>np.std\<close> with its default \<^verbatim>\<open>ddof=0\<close>: the root of the mean squared
  deviation from the mean. The source calls it on non-empty lists only.\<close>

definition np_std :: "real list \<Rightarrow> real" where
  "np_std xs =
     (let n = real (length xs);
          mean = sum_list xs / n
      in sqrt (sum_list (map (\<lambda>x. (x - mean)\<^sup>2) xs) / n))"

definition get_current_price :: "volatility_calculator \<Rightarrow> real" where
  "get_current_price self = current_price self"

definition get_current_volatility :: "volatility_calculator \<Rightarrow> datetime \<Rightarrow> error + real" where
  "get_current_volatility self now =
     (if length (price_history self) < 10 then Inr 0
      else
        let cutoff_time = now - timedelta_minutes (volatility_window_minutes (vc_settings self));
            recent_prices = filter (\<lambda>p. pp_timestamp p > cutoff_time) (price_history self)
        in if length recent_prices < 2 then Inr 0
           else bind (simple_returns (map pp_price recent_prices))
                  (\<lambda>returns. if returns = [] then Inr 0
                             else Inr (np_std returns * sqrt (365 * 24 * 60))))"

text \<open>The body of the loop of \<^verbatim>\<open>get_volatility_percentile\<close>, over the start indices
  \<^verbatim>\<open>range(0, len(self.price_history) - 10, 10)\<close>.\<close>

fun historical_vols :: "price_point list \<Rightarrow> datetime \<Rightarrow> nat list \<Rightarrow> error + real list" where
  "historical_vols h cutoff_time [] = Inr []"
| "historical_vols h cutoff_time (i # is) =
     (if pp_timestamp (h ! i) < cutoff_time then historical_vols h cutoff_time is
      else
        let sample_prices = take 10 (drop i h)
        in if length sample_prices < 2 then historical_vols h cutoff_time is
           else bind (simple_returns (map pp_price sample_prices))
                  (\<lambda>returns. bind (historical_vols h cutoff_time is)
                     (\<lambda>vols. Inr (if returns = [] then vols
                                   else np_std returns * sqrt (365 * 24 * 60) # vols))))"

definition get_volatility_percentile :: "volatility_calculator \<Rightarrow> datetime \<Rightarrow> int \<Rightarrow> error + real" where
  "get_volatility_percentile self now lookback_minutes =
     bind (get_current_volatility self now)
       (\<lambda>current_vol.
          let cutoff_time = now - timedelta_minutes lookback_minutes;
              h = price_history self;
              starts = filter (\<lambda>i. i mod 10 = 0) [0 ..< length h - 10]
          in bind (historical_vols h cutoff_time starts)
               (\<lambda>vols. if vols = [] then Inr 50
                        else Inr (real (length (filter (\<lambda>v. v < current_vol) vols))
                                  / real (length vols) * 100)))"

definition get_price_history :: "volatility_calculator \<Rightarrow> datetime \<Rightarrow> int \<Rightarrow> price_point list" where
  "get_price_history self now minutes =
     (let cutoff_time = now - timedelta_minutes minutes
      in filter (\<lambda>p. pp_timestamp p > cutoff_time) (price_history self))"

definition calculate_slippage :: "volatility_calculator \<Rightarrow> datetime \<Rightarrow> real \<Rightarrow> string \<Rightarrow> error + real" where
  "calculate_slippage self now order_size symbol =
     bind (get_current_volatility self now)
       (\<lambda>volatility.
          let base_slippage = 5;
              size_impact = min (order_size / 100000) (1 / 2);
              volatility_impact = min (volatility * 1000) 20;
              current_hour = hour now;
              time_impact = (if 2 \<le> current_hour \<and> current_hour \<le> 6 then 5 else 0)
          in Inr (base_slippage + size_impact + volatility_impact + time_impact))"

section \<open>Data model (analytics\_models.py)\<close>

record Order =
  orderId :: string
  userId :: string
  symbol :: string
  side :: string
  quantity :: real
  price :: real
  orderType :: string
  timestamp :: datetime

text \<open>
  The entries of \<^verbatim>\<open>RiskAnalysis.reasons\<close> are formatted strings. Each constructor
  stands for one format string of risk\_analyzer.py and carries the number the string
  interpolates.
\<close>

datatype reason =
    ExtremeVolatility real
  | HighVolatility real
  | VolatilityTopPercentile real
  | HighSlippage real
  | ModerateSlippage real
  | HighOrderFrequency nat
  | UnusuallyLargeOrder real
  | FirstTimeUser
  | OutsideMarketHours
  | WeekendTrading
  | RecentLargePriceMovement real
  | HighRiskScore real
  | ModerateRiskScore real
  | LowRiskScore real

text \<open>
  \<^verbatim>\<open>RiskAnalysis\<close>; the fields it shares with \<^verbatim>\<open>Order\<close> carry the prefix \<open>ra_\<close>.
  The class declares \<^verbatim>\<open>riskScore: float = Field(ge=0, le=100)\<close>; pydantic checks the
  bounds when the object is constructed (with \<^verbatim>\<open>riskScore=0.0\<close>), not when the field
  is assigned afterwards.
\<close>

record RiskAnalysis =
  ra_orderId :: string
  ra_userId :: string
  ra_symbol :: string
  riskScore :: real
  verdict :: string
  volatility :: real
  slippage :: real
  reasons :: "reason list"
  processingTimeMs :: int
  ra_timestamp :: datetime

section \<open>Parsing an inbound message (risk\_analyzer.py)\<close>

text \<open>The value \<^verbatim>\<open>json.loads\<close> returns.\<close>

datatype json =
    JNull
  | JBool bool
  | JNumber real
  | JString string
  | JArray "json list"
  | JObject "(string \<times> json) list"

text \<open>
  Library functions the parser calls, which are not code of this repository; \<open>None\<close>
  is the exception each of them raises on bad input. \<open>json_loads\<close> is
  \<^verbatim>\<open>json.loads\<close>, \<open>float_of_str\<close> is \<^verbatim>\<open>float\<close> on a string, \<open>fromisoformat\<close> is
  \<^verbatim>\<open>datetime.fromisoformat\<close>, and the three validators are pydantic's for the field
  types \<^verbatim>\<open>str\<close>, \<^verbatim>\<open>float\<close> and \<^verbatim>\<open>datetime\<close>.
\<close>

record pylib =
  json_loads :: "string \<Rightarrow> json option"
  float_of_str :: "string \<Rightarrow> real option"
  fromisoformat :: "string \<Rightarrow> datetime option"
  validate_str :: "json \<Rightarrow> string option"
  validate_float :: "json \<Rightarrow> real option"
  validate_datetime :: "json \<Rightarrow> datetime option"

text \<open>\<^verbatim>\<open>order_data[key]\<close>.\<close>

definition getitem :: "(string \<rightharpoonup> 'a) \<Rightarrow> string \<Rightarrow> error + 'a" where
  "getitem d k = (case d k of None \<Rightarrow> Inl (KeyError k) | Some v \<Rightarrow> Inr v)"

definition raise_if_none :: "error \<Rightarrow> 'a option \<Rightarrow> error + 'a" where
  "raise_if_none e r = (case r of None \<Rightarrow> Inl e | Some v \<Rightarrow> Inr v)"

text \<open>
  \<^verbatim>\<open>Order(**order_json)\<close>: pydantic looks every declared field up in the keyword
  arguments, validates it, ignores the other keys, and raises \<^verbatim>\<open>ValidationError\<close> when
  a field is missing or invalid.
\<close>

definition Order_init :: "pylib \<Rightarrow> (string \<rightharpoonup> json) \<Rightarrow> error + Order" where
  "Order_init lib kw =
     raise_if_none ValidationError
       (Option.bind (Option.bind (kw ''orderId'') (validate_str lib)) (\<lambda>oid.
        Option.bind (Option.bind (kw ''userId'') (validate_str lib)) (\<lambda>uid.
        Option.bind (Option.bind (kw ''symbol'') (validate_str lib)) (\<lambda>sym.
        Option.bind (Option.bind (kw ''side'') (validate_str lib)) (\<lambda>sd.
        Option.bind (Option.bind (kw ''quantity'') (validate_float lib)) (\<lambda>q.
        Option.bind (Option.bind (kw ''price'') (validate_float lib)) (\<lambda>p.
        Option.bind (Option.bind (kw ''orderType'') (validate_str lib)) (\<lambda>ot.
        Option.bind (Option.bind (kw ''timestamp'') (validate_datetime lib)) (\<lambda>ts.
          Some \<lparr> orderId = oid, userId = uid, symbol = sym, side = sd, quantity = q,
                 price = p, orderType = ot, timestamp = ts \<rparr>)))))))))"

text \<open>
  \<^verbatim>\<open>_parse_order_data\<close>. A message is the mapping of field names to strings that the
  stream delivers. A JSON object with a repeated key keeps the last value, and
  \<^verbatim>\<open>**\<close> raises \<^verbatim>\<open>TypeError\<close> on a value that is not a mapping. In the second
  branch the keyword arguments are evaluated from left to right.
\<close>

definition parse_order_data :: "pylib \<Rightarrow> (string \<rightharpoonup> string) \<Rightarrow> error + Order" where
  "parse_order_data lib order_data =
     (case order_data ''orderData'' of
        Some payload \<Rightarrow>
          bind (raise_if_none JSONDecodeError (json_loads lib payload))
            (\<lambda>order_json. case order_json of
                 JObject kvs \<Rightarrow> Order_init lib (map_of (rev kvs))
               | _ \<Rightarrow> Inl TypeError)
      | None \<Rightarrow>
          bind (getitem order_data ''orderId'') (\<lambda>oid.
          bind (getitem order_data ''userId'') (\<lambda>uid.
          bind (getitem order_data ''symbol'') (\<lambda>sym.
          bind (getitem order_data ''side'') (\<lambda>sd.
          bind (getitem order_data ''quantity'') (\<lambda>qs.
          bind (raise_if_none ValueError (float_of_str lib qs)) (\<lambda>q.
          bind (getitem order_data ''price'') (\<lambda>ps.
          bind (raise_if_none ValueError (float_of_str lib ps)) (\<lambda>p.
          bind (getitem order_data ''orderType'') (\<lambda>ot.
          bind (getitem order_data ''timestamp'') (\<lambda>tss.
          bind (raise_if_none ValueError (fromisoformat lib tss)) (\<lambda>ts.
            Inr \<lparr> orderId = oid, userId = uid, symbol = sym, side = sd, quantity = q,
                  price = p, orderType = ot, timestamp = ts \<rparr>))))))))))))"

section \<open>Risk scorer (risk\_analyzer.py)\<close>

text \<open>One entry of a user's \<^verbatim>\<open>recent_orders\<close>, and the per-user dictionary of
  \<^verbatim>\<open>user_analytics\<close>.\<close>

record recent_order =
  ro_orderId :: string
  ro_timestamp :: datetime
  ro_size :: real
  ro_riskScore :: real

record user_data =
  total_orders :: nat
  total_volume :: real
  recent_orders :: "recent_order list"
  risk_events :: nat
  last_activity :: datetime

text \<open>
  \<^verbatim>\<open>RiskAnalyzer\<close>. Its \<^verbatim>\<open>settings\<close> are the process-wide object that the
  calculator holds too (\<^verbatim>\<open>get_settings()\<close> returns one shared instance).
\<close>

record risk_analyzer =
  calculator :: volatility_calculator
  user_analytics :: "string \<rightharpoonup> user_data"

definition init_analyzer :: "volatility_calculator \<Rightarrow> risk_analyzer" where
  "init_analyzer vc = \<lparr> calculator = vc, user_analytics = Map.empty \<rparr>"

text \<open>\<^verbatim>\<open>analysis.riskScore += points; analysis.reasons.append(r)\<close>.\<close>

definition add_risk :: "real \<Rightarrow> reason \<Rightarrow> RiskAnalysis \<Rightarrow> RiskAnalysis" where
  "add_risk points r analysis =
     analysis \<lparr> riskScore := riskScore analysis + points, reasons := reasons analysis @ [r] \<rparr>"

definition analyze_volatility_risk ::
  "risk_analyzer \<Rightarrow> datetime \<Rightarrow> Order \<Rightarrow> RiskAnalysis \<Rightarrow> error + RiskAnalysis" where
  "analyze_volatility_risk self now order analysis =
     bind (get_current_volatility (calculator self) now) (\<lambda>current_vol.
     let analysis = analysis \<lparr> volatility := current_vol \<rparr>
     in bind (get_volatility_percentile (calculator self) now 60) (\<lambda>vol_percentile.
        let analysis =
              (if current_vol > extreme_volatility_threshold (vc_settings (calculator self))
               then add_risk 30 (ExtremeVolatility current_vol) analysis
               else if current_vol > high_volatility_threshold (vc_settings (calculator self))
               then add_risk 15 (HighVolatility current_vol) analysis
               else analysis);
            analysis =
              (if vol_percentile > 90
               then add_risk 10 (VolatilityTopPercentile vol_percentile) analysis
               else analysis)
        in Inr analysis))"

definition analyze_slippage_risk ::
  "risk_analyzer \<Rightarrow> datetime \<Rightarrow> Order \<Rightarrow> RiskAnalysis \<Rightarrow> error + RiskAnalysis" where
  "analyze_slippage_risk self now order analysis =
     (let order_size = quantity order * price order
      in bind (calculate_slippage (calculator self) now order_size (symbol order)) (\<lambda>slippage_bps.
         let analysis = analysis \<lparr> slippage := slippage_bps / 10000 \<rparr>
         in Inr (if slippage_bps > 25 then add_risk 20 (HighSlippage slippage_bps) analysis
                 else if slippage_bps > 15 then add_risk 10 (ModerateSlippage slippage_bps) analysis
                 else analysis)))"

text \<open>
  \<^verbatim>\<open>_analyze_user_behavior\<close>. It creates the user's entry when there is none, and the
  entry stays when a later statement raises, so the analyzer is returned beside the
  result. The reason of the large-order check divides the order size by the average,
  which raises \<^verbatim>\<open>ZeroDivisionError\<close> when the average is zero.
\<close>

definition analyze_user_behavior ::
  "risk_analyzer \<Rightarrow> datetime \<Rightarrow> Order \<Rightarrow> RiskAnalysis \<Rightarrow> (error + RiskAnalysis) \<times> risk_analyzer" where
  "analyze_user_behavior self now order analysis =
     (let user_id = userId order;
          user_data =
            (case user_analytics self user_id of
               None \<Rightarrow> \<lparr> total_orders = 0, total_volume = 0, recent_orders = [],
                          risk_events = 0, last_activity = now \<rparr>
             | Some d \<Rightarrow> d);
          self = self \<lparr> user_analytics := (user_analytics self)(user_id \<mapsto> user_data) \<rparr>;
          recent = filter (\<lambda>ro. ro_timestamp ro > now - timedelta_minutes 5) (recent_orders user_data);
          analysis =
            (if length recent > 10 then add_risk 25 (HighOrderFrequency (length recent)) analysis
             else analysis);
          order_size = quantity order * price order;
          avg_order_size = total_volume user_data / real (total_orders user_data);
          first_time = (\<lambda>analysis.
            if total_orders user_data = 0 then add_risk 5 FirstTimeUser analysis else analysis)
      in if total_orders user_data > 0 \<and> order_size > avg_order_size * 5
         then if avg_order_size = 0 then (Inl ZeroDivisionError, self)
              else (Inr (first_time
                      (add_risk 15 (UnusuallyLargeOrder (order_size / avg_order_size)) analysis)),
                    self)
         else (Inr (first_time analysis), self))"

text \<open>\<^verbatim>\<open>max\<close> of a non-empty list.\<close>

definition list_max :: "real \<Rightarrow> real list \<Rightarrow> real" where
  "list_max x xs = fold max xs x"

text \<open>
  \<^verbatim>\<open>_analyze_market_conditions\<close>. \<^verbatim>\<open>price_history[-10:]\<close> is the last ten entries,
  or all of them when there are fewer. The reason of the price-movement check divides
  by the order's price.
\<close>

definition analyze_market_conditions ::
  "risk_analyzer \<Rightarrow> datetime \<Rightarrow> Order \<Rightarrow> RiskAnalysis \<Rightarrow> error + RiskAnalysis" where
  "analyze_market_conditions self now order analysis =
     (let current_hour = hour now;
          analysis =
            (if current_hour < 9 \<or> current_hour > 16
             then add_risk 5 OutsideMarketHours analysis else analysis);
          analysis =
            (if weekday now \<ge> 5 then add_risk 10 WeekendTrading analysis else analysis);
          history = get_price_history (calculator self) now 5
      in if length history > 1
         then (case map (\<lambda>p. \<bar>pp_change p\<bar>) (drop (length history - 10) history) of
                 [] \<Rightarrow> Inr analysis
               | c # cs \<Rightarrow>
                   let max_recent_change = list_max c cs
                   in if max_recent_change > price order * (5 / 1000)
                      then if price order = 0 then Inl ZeroDivisionError
                           else Inr (add_risk 10
                                  (RecentLargePriceMovement (max_recent_change / price order))
                                  analysis)
                      else Inr analysis)
         else Inr analysis)"

definition determine_verdict :: "RiskAnalysis \<Rightarrow> RiskAnalysis" where
  "determine_verdict analysis =
     (let analysis =
            (if riskScore analysis \<ge> 70 then analysis \<lparr> verdict := ''REJECT'' \<rparr>
             else if riskScore analysis \<ge> 30 then analysis \<lparr> verdict := ''WARN'' \<rparr>
             else analysis \<lparr> verdict := ''ACCEPT'' \<rparr>)
      in if verdict analysis = ''REJECT''
         then analysis \<lparr> reasons := HighRiskScore (riskScore analysis) # reasons analysis \<rparr>
         else if verdict analysis = ''WARN''
         then analysis \<lparr> reasons := ModerateRiskScore (riskScore analysis) # reasons analysis \<rparr>
         else analysis \<lparr> reasons := LowRiskScore (riskScore analysis) # reasons analysis \<rparr>)"

text \<open>\<^verbatim>\<open>_update_user_analytics\<close>; \<^verbatim>\<open>self.user_analytics[user_id]\<close> raises
  \<^verbatim>\<open>KeyError\<close> when the user has no entry.\<close>

definition update_user_analytics ::
  "risk_analyzer \<Rightarrow> datetime \<Rightarrow> Order \<Rightarrow> RiskAnalysis \<Rightarrow> error + risk_analyzer" where
  "update_user_analytics self now order analysis =
     bind (getitem (user_analytics self) (userId order)) (\<lambda>user_data.
       let user_data = user_data \<lparr> total_orders := total_orders user_data + 1,
                                   total_volume := total_volume user_data + quantity order * price order,
                                   last_activity := now \<rparr>;
           appended = recent_orders user_data @
                        [\<lparr> ro_orderId = orderId order, ro_timestamp = timestamp order,
                           ro_size = quantity order * price order,
                           ro_riskScore = riskScore analysis \<rparr>];
           user_data = user_data \<lparr> recent_orders :=
                         (if length appended > 100 then drop (length appended - 100) appended
                          else appended) \<rparr>;
           user_data = (if verdict analysis \<in> set [''REJECT'', ''WARN'']
                        then user_data \<lparr> risk_events := risk_events user_data + 1 \<rparr>
                        else user_data)
       in Inr (self \<lparr> user_analytics := (user_analytics self)(userId order \<mapsto> user_data) \<rparr>))"

text \<open>
  \<^verbatim>\<open>int(x)\<close> of the milliseconds between two clock readings: rounds towards zero.
  The source multiplies \<^verbatim>\<open>total_seconds()\<close> by 1000 in floating point, so where the
  difference is a whole number of milliseconds its result can be one less than the
  exact quotient taken here.
\<close>

definition elapsed_ms :: "datetime \<Rightarrow> datetime \<Rightarrow> int" where
  "elapsed_ms start finish =
     (if finish \<ge> start then (finish - start) div 1000 else - ((start - finish) div 1000))"

text \<open>
  \<^verbatim>\<open>analyze_order\<close>. \<open>now\<close> is the clock while the order is scored and \<open>finish\<close> the
  clock once the verdict is set. The exception handler logs and raises again, so an
  error of any stage is the result; the analyzer comes back in every case, with
  whatever the stages wrote to it.
\<close>

definition analyze_order ::
  "pylib \<Rightarrow> risk_analyzer \<Rightarrow> datetime \<Rightarrow> datetime \<Rightarrow> (string \<rightharpoonup> string)
     \<Rightarrow> (error + RiskAnalysis) \<times> risk_analyzer" where
  "analyze_order lib self now finish order_data =
     (case parse_order_data lib order_data of
        Inl e \<Rightarrow> (Inl e, self)
      | Inr order \<Rightarrow>
          let analysis = \<lparr> ra_orderId = orderId order, ra_userId = userId order,
                           ra_symbol = symbol order, riskScore = 0, verdict = ''ACCEPT'',
                           volatility = 0, slippage = 0, reasons = [], processingTimeMs = 0,
                           ra_timestamp = now \<rparr>
          in (case bind (analyze_volatility_risk self now order analysis)
                     (analyze_slippage_risk self now order) of
                Inl e \<Rightarrow> (Inl e, self)
              | Inr analysis \<Rightarrow>
                  (case analyze_user_behavior self now order analysis of
                     (Inl e, self) \<Rightarrow> (Inl e, self)
                   | (Inr analysis, self) \<Rightarrow>
                       (case analyze_market_conditions self now order analysis of
                          Inl e \<Rightarrow> (Inl e, self)
                        | Inr analysis \<Rightarrow>
                            (let analysis = determine_verdict analysis;
                                 analysis = analysis \<lparr> processingTimeMs := elapsed_ms now finish \<rparr>
                             in (case update_user_analytics self finish order analysis of
                                   Inl e \<Rightarrow> (Inl e, self)
                                 | Inr self \<Rightarrow> (Inr analysis, self)))))))"

definition get_user_analytics :: "risk_analyzer \<Rightarrow> string \<Rightarrow> user_data option" where
  "get_user_analytics self user_id = user_analytics self user_id"

section \<open>Stream consumer (redis\_consumer.py)\<close>

text \<open>
  What the consumer sees of the Redis server: the hashes it stored (the analysis and the
  message id, under the key \<^verbatim>\<open>analysis:<orderId>\<close>), the expiry set on a key, in
  seconds, and the message ids acknowledged to the consumer group, in order.
\<close>

record redis =
  hashes :: "string \<rightharpoonup> RiskAnalysis \<times> string"
  expiries :: "string \<rightharpoonup> nat"
  acked :: "string list"

text \<open>
  What the outside world does while one message is processed: the two clock readings,
  and whether each Redis command succeeds or raises (a transport error).
\<close>

record io =
  io_now :: datetime
  io_finish :: datetime
  hset_ok :: bool
  expire_ok :: bool
  xack_ok :: bool

record redis_consumer =
  analyzer :: risk_analyzer
  redis_client :: redis
  consumer_running :: bool

text \<open>
  \<^verbatim>\<open>_store_analysis_result\<close>. Its exception handler logs and does not raise again:
  the function returns normally whatever the two commands do.
\<close>

definition store_analysis_result :: "redis \<Rightarrow> io \<Rightarrow> string \<Rightarrow> RiskAnalysis \<Rightarrow> redis" where
  "store_analysis_result r w msg_id analysis =
     (let analysis_key = ''analysis:'' @ ra_orderId analysis
      in if \<not> hset_ok w then r
         else let r = r \<lparr> hashes := (hashes r)(analysis_key \<mapsto> (analysis, msg_id)) \<rparr>
              in if \<not> expire_ok w then r
                 else r \<lparr> expiries := (expiries r)(analysis_key \<mapsto> 86400) \<rparr>)"

text \<open>\<^verbatim>\<open>_process_single_message\<close>: its handler logs and raises again.\<close>

definition process_single_message ::
  "pylib \<Rightarrow> redis_consumer \<Rightarrow> io \<Rightarrow> string \<Rightarrow> (string \<rightharpoonup> string) \<Rightarrow> (error + unit) \<times> redis_consumer" where
  "process_single_message lib self w msg_id msg_fields =
     (case analyze_order lib (analyzer self) (io_now w) (io_finish w) msg_fields of
        (Inl e, a) \<Rightarrow> (Inl e, self \<lparr> analyzer := a \<rparr>)
      | (Inr risk_analysis, a) \<Rightarrow>
          (Inr (), self \<lparr> analyzer := a,
                          redis_client := store_analysis_result (redis_client self) w msg_id risk_analysis \<rparr>))"

text \<open>
  The body of the inner loop of \<^verbatim>\<open>_process_messages\<close>: process the message, then
  acknowledge it; an exception of either step is logged and the loop goes on.
\<close>

definition process_message ::
  "pylib \<Rightarrow> redis_consumer \<Rightarrow> string \<times> (string \<rightharpoonup> string) \<times> io \<Rightarrow> redis_consumer" where
  "process_message lib self m =
     (case m of (msg_id, msg_fields, w) \<Rightarrow>
        (case process_single_message lib self w msg_id msg_fields of
           (Inl e, self) \<Rightarrow> self
         | (Inr u, self) \<Rightarrow>
             if xack_ok w
             then self \<lparr> redis_client := (redis_client self) \<lparr> acked := acked (redis_client self) @ [msg_id] \<rparr> \<rparr>
             else self))"

text \<open>\<^verbatim>\<open>_process_messages\<close>: every message of every stream of the batch, in order.\<close>

definition process_messages ::
  "pylib \<Rightarrow> redis_consumer \<Rightarrow> (string \<times> (string \<times> (string \<rightharpoonup> string) \<times> io) list) list \<Rightarrow> redis_consumer" where
  "process_messages lib self messages =
     fold (\<lambda>(stream, msgs) self. fold (\<lambda>m self. process_message lib self m) msgs self) messages self"

section \<open>Example inputs\<close>

text \<open>
  Concrete states and messages on which the theorems below are run. The two clock
  readings are Monday 2024-01-08 at 03:00:00 and at 12:00:00.
\<close>

definition monday_0300 :: datetime where
  "monday_0300 = 1704682800000000"

definition monday_noon :: datetime where
  "monday_noon = 1704715200000000"

text \<open>A calculator straight after construction: no price has been recorded yet.\<close>

definition fresh_calculator :: volatility_calculator where
  "fresh_calculator = init_calculator default_settings monday_noon"

text \<open>Price points one second apart, each with the change from the price before it.\<close>

fun price_series :: "datetime \<Rightarrow> real \<Rightarrow> real list \<Rightarrow> price_point list" where
  "price_series t prev [] = []"
| "price_series t prev (p # ps) =
     \<lparr> pp_price = p, pp_timestamp = t, pp_change = p - prev \<rparr> # price_series (t + 1000000) p ps"

text \<open>
  Eleven ticks, the last one half a second before 03:00:00: ten at 50000 and then one at
  50100. All of them lie in the trailing minute.
\<close>

definition jump_calculator :: volatility_calculator where
  "jump_calculator =
     \<lparr> vc_settings = default_settings,
       price_history =
         price_series (monday_0300 - 10500000) 50000
           [50000, 50000, 50000, 50000, 50000, 50000, 50000, 50000, 50000, 50000, 50100],
       current_price = 50100,
       last_update = monday_0300 - 500000,
       running = True \<rparr>"

text \<open>
  Ten ticks at 50000, the last one two minutes before 12:00:00: none of them lies in the
  trailing minute.
\<close>

definition stale_calculator :: volatility_calculator where
  "stale_calculator =
     \<lparr> vc_settings = default_settings,
       price_history =
         price_series (monday_noon - 129000000) 50000
           [50000, 50000, 50000, 50000, 50000, 50000, 50000, 50000, 50000, 50000],
       current_price = 50000,
       last_update = monday_noon - 120000000,
       running = True \<rparr>"

text \<open>
  A user with eleven earlier orders of notional 1000 each, all submitted one minute
  before 03:00:00.
\<close>

definition busy_user :: user_data where
  "busy_user =
     \<lparr> total_orders = 11, total_volume = 11000,
       recent_orders =
         replicate 11 \<lparr> ro_orderId = ''o-old'', ro_timestamp = monday_0300 - 60000000,
                         ro_size = 1000, ro_riskScore = 5 \<rparr>,
       risk_events = 0, last_activity = monday_0300 - 60000000 \<rparr>"

definition busy_analyzer :: risk_analyzer where
  "busy_analyzer = \<lparr> calculator = jump_calculator, user_analytics = [''u-7'' \<mapsto> busy_user] \<rparr>"

text \<open>A message that carries the order in its fields: 2 units at 50000.\<close>

definition direct_message :: "string \<rightharpoonup> string" where
  "direct_message =
     [''orderId'' \<mapsto> ''o-105'', ''userId'' \<mapsto> ''u-7'', ''symbol'' \<mapsto> ''BTC-USD'',
      ''side'' \<mapsto> ''BUY'', ''quantity'' \<mapsto> ''2'', ''price'' \<mapsto> ''50000'',
      ''orderType'' \<mapsto> ''MARKET'', ''timestamp'' \<mapsto> ''2024-01-08T02:59:59'']"

text \<open>A message that carries the order as JSON and, beside it, fields of another order.\<close>

definition sample_payload :: string where
  \<open>sample_payload = ''{"orderId": "o-1", "userId": "u-1", "symbol": "BTC-USD", "side": "SELL", "quantity": 3, "price": 40000, "orderType": "LIMIT", "timestamp": "2024-01-08T02:59:59"}''\<close>

definition wrapped_message :: "string \<rightharpoonup> string" where
  "wrapped_message = direct_message(''orderData'' \<mapsto> sample_payload)"

text \<open>
  The library on the strings of these examples, where it returns what CPython and
  pydantic return; on other inputs \<open>sample_lib\<close> is not meant to follow them.
\<close>

definition sample_lib :: pylib where
  "sample_lib =
     \<lparr> json_loads = (\<lambda>s. if s = sample_payload
          then Some (JObject [(''orderId'', JString ''o-1''), (''userId'', JString ''u-1''),
                 (''symbol'', JString ''BTC-USD''), (''side'', JString ''SELL''),
                 (''quantity'', JNumber 3), (''price'', JNumber 40000),
                 (''orderType'', JString ''LIMIT''),
                 (''timestamp'', JString ''2024-01-08T02:59:59'')])
          else None),
       float_of_str = (\<lambda>s. if s = ''2'' then Some 2 else if s = ''50000'' then Some 50000 else None),
       fromisoformat = (\<lambda>s. if s = ''2024-01-08T02:59:59'' then Some (monday_0300 - 1000000) else None),
       validate_str = (\<lambda>j. case j of JString s \<Rightarrow> Some s | _ \<Rightarrow> None),
       validate_float = (\<lambda>j. case j of JNumber x \<Rightarrow> Some x | _ \<Rightarrow> None),
       validate_datetime = (\<lambda>j. case j of
            JString s \<Rightarrow> (if s = ''2024-01-08T02:59:59'' then Some (monday_0300 - 1000000) else None)
          | _ \<Rightarrow> None) \<rparr>"

text \<open>The order that \<open>direct_message\<close> carries, and the analysis with which
  \<^verbatim>\<open>analyze_order\<close> starts.\<close>

definition direct_order :: Order where
  "direct_order =
     \<lparr> orderId = ''o-105'', userId = ''u-7'', symbol = ''BTC-USD'', side = ''BUY'',
       quantity = 2, price = 50000, orderType = ''MARKET'', timestamp = monday_0300 - 1000000 \<rparr>"

definition blank_analysis :: "Order \<Rightarrow> datetime \<Rightarrow> RiskAnalysis" where
  "blank_analysis order now =
     \<lparr> ra_orderId = orderId order, ra_userId = userId order, ra_symbol = symbol order,
       riskScore = 0, verdict = ''ACCEPT'', volatility = 0, slippage = 0, reasons = [],
       processingTimeMs = 0, ra_timestamp = now \<rparr>"

text \<open>
  A consumer that has processed nothing yet, and a message during whose processing the
  \<^verbatim>\<open>HSET\<close> command fails while the acknowledgement goes through.
\<close>

definition empty_redis :: redis where
  "empty_redis = \<lparr> hashes = Map.empty, expiries = Map.empty, acked = [] \<rparr>"

definition fresh_consumer :: redis_consumer where
  "fresh_consumer =
     \<lparr> analyzer = init_analyzer fresh_calculator, redis_client = empty_redis,
       consumer_running = True \<rparr>"

definition hset_outage :: io where
  "hset_outage =
     \<lparr> io_now = monday_noon, io_finish = monday_noon + 1500,
       hset_ok = False, expire_ok = True, xack_ok = True \<rparr>"

section \<open>The specification's words\<close>

text \<open>
  The specification describes the volatility as the sample standard deviation of the
  simple returns between consecutive qualifying points. These two definitions follow
  its words, not the source: the returns of consecutive prices, and the standard
  deviation of a sample, which divides by one less than the number of values.
\<close>

definition consecutive_returns :: "real list \<Rightarrow> real list" where
  "consecutive_returns ps = map (\<lambda>(a, b). (b - a) / a) (zip ps (tl ps))"

definition sample_std :: "real list \<Rightarrow> real" where
  "sample_std xs =
     (let n = real (length xs);
          mean = sum_list xs / n
      in sqrt (sum_list (map (\<lambda>x. (x - mean)\<^sup>2) xs) / (n - 1)))"

section \<open>Basic facts\<close>

lemma bind_Inr [simp]: "bind (Inr x) f = f x"
  by (simp add: bind_def)

lemma bind_Inl [simp]: "bind (Inl e) f = Inl e"
  by (simp add: bind_def)

lemma bind_eq_Inr: "bind r f = Inr y \<longleftrightarrow> (\<exists>x. r = Inr x \<and> f x = Inr y)"
  by (cases r) simp_all

lemma hour_monday_0300: "hour monday_0300 = 3"
  by (simp add: hour_def monday_0300_def)

lemma hour_monday_noon: "hour monday_noon = 12"
  by (simp add: hour_def monday_noon_def)

lemma weekday_monday_0300: "weekday monday_0300 = 0"
  by (simp add: weekday_def monday_0300_def)

section \<open>The volatility engine\<close>

lemma simple_returns_total:
  "0 \<notin> set ps \<Longrightarrow> \<exists>rs. simple_returns ps = Inr rs"
  by (induction ps rule: simple_returns.induct) auto

lemma np_std_nonneg: "0 \<le> np_std xs"
proof -
  have "0 \<le> sum_list (map (\<lambda>x. (x - m)\<^sup>2) xs)" for m :: real
    by (rule sum_list_nonneg) auto
  then show ?thesis
    by (simp add: np_std_def Let_def)
qed

text \<open>With no zero price on record the volatility is computed, and it is not negative.\<close>

lemma get_current_volatility_total:
  assumes "0 \<notin> set (map pp_price (price_history self))"
  shows "\<exists>vol. get_current_volatility self now = Inr vol \<and> 0 \<le> vol"
proof -
  let ?recent = "filter (\<lambda>p. pp_timestamp p >
      now - timedelta_minutes (volatility_window_minutes (vc_settings self))) (price_history self)"
  have "0 \<notin> set (map pp_price ?recent)"
    using assms by auto
  then obtain rs where rs: "simple_returns (map pp_price ?recent) = Inr rs"
    using simple_returns_total by blast
  show ?thesis
    using rs np_std_nonneg [of rs]
    by (auto simp add: get_current_volatility_def Let_def)
qed

text \<open>The feed never records a price below its floor of 1000, so never a zero price.\<close>

lemma update_price_floor:
  assumes "\<forall>p \<in> set (price_history self). 1000 \<le> pp_price p"
  shows "\<forall>p \<in> set (price_history (update_price self now random_shock u)). 1000 \<le> pp_price p"
  using assms
  by (auto simp add: update_price_def deque_append_def Let_def dest!: in_set_dropD)

lemma update_price_length:
  assumes "length (price_history self) \<le> 1000"
  shows "length (price_history (update_price self now random_shock u)) \<le> 1000"
  using assms by (simp add: update_price_def deque_append_def Let_def)

lemma fold_update_price_floor:
  assumes "\<forall>p \<in> set (price_history self). 1000 \<le> pp_price p"
  shows "\<forall>p \<in> set (price_history
            (fold (\<lambda>(now, random_shock, u) self. update_price self now random_shock u) ticks self)).
           1000 \<le> pp_price p"
  using assms
proof (induction ticks arbitrary: self)
  case Nil
  then show ?case by simp
next
  case (Cons t ticks)
  obtain now random_shock u where t: "t = (now, random_shock, u)"
    by (cases t) auto
  show ?case
    using Cons.IH [OF update_price_floor [OF Cons.prems, of now random_shock u]]
    by (simp add: t)
qed

text \<open>Whatever the ticks, a calculator that the feed has run from its construction holds
  no zero price.\<close>

lemma feed_no_zero_price:
  "0 \<notin> set (map pp_price (price_history (start_btc_feed (init_calculator cfg t0) ticks)))"
proof -
  have "\<forall>p \<in> set (price_history ((init_calculator cfg t0) \<lparr> running := True \<rparr>)). 1000 \<le> pp_price p"
    by (simp add: init_calculator_def)
  from fold_update_price_floor [OF this, of ticks]
  show ?thesis
    by (fastforce simp add: start_btc_feed_def)
qed

lemma fresh_volatility: "get_current_volatility fresh_calculator now = Inr 0"
  by (simp add: get_current_volatility_def fresh_calculator_def init_calculator_def)

lemma stale_recent:
  "filter (\<lambda>p. pp_timestamp p >
       monday_noon - timedelta_minutes (volatility_window_minutes (vc_settings stale_calculator)))
     (price_history stale_calculator) = []"
  by (simp add: stale_calculator_def default_settings_def timedelta_minutes_def monday_noon_def)

lemma jump_returns:
  "simple_returns (map pp_price (price_history jump_calculator)) =
     Inr [0, 0, 0, 0, 0, 0, 0, 0, 0, 1 / 500]"
  by (simp add: jump_calculator_def)

lemma jump_recent:
  "filter (\<lambda>p. pp_timestamp p >
       monday_0300 - timedelta_minutes (volatility_window_minutes (vc_settings jump_calculator)))
     (price_history jump_calculator) = price_history jump_calculator"
  by (simp add: jump_calculator_def default_settings_def timedelta_minutes_def monday_0300_def)

lemma sqrt_9_25000000: "sqrt (9 / 25000000) = 3 / 5000"
  by (rule real_sqrt_unique) (simp_all add: power2_eq_square)

lemma jump_std: "np_std [0, 0, 0, 0, 0, 0, 0, 0, 0, 1 / 500] = 3 / 5000"
  by (simp add: np_std_def Let_def power2_eq_square sqrt_9_25000000)

lemma jump_volatility:
  "get_current_volatility jump_calculator monday_0300 = Inr (3 / 5000 * sqrt (365 * 24 * 60))"
  using jump_recent jump_returns
  by (simp add: get_current_volatility_def Let_def jump_std) (simp add: jump_calculator_def)

lemma jump_prices_nonzero: "0 \<notin> set (map pp_price (price_history jump_calculator))"
  by (simp add: jump_calculator_def)

lemma sqrt_minutes_per_year: "200 \<le> sqrt (365 * 24 * 60)"
  by (rule real_le_rsqrt) simp

text \<open>
  C7. \<^verbatim>\<open>get_current_volatility\<close> returns exactly 0 when fewer than 10 points are
  retained, and also when fewer than 2 retained points lie in the trailing volatility
  window, however many points are retained.
\<close>

theorem get_current_volatility_cold_start:
  assumes "length (price_history self) < 10 \<or>
     length (filter (\<lambda>p. pp_timestamp p >
                now - timedelta_minutes (volatility_window_minutes (vc_settings self)))
               (price_history self)) < 2"
  shows "get_current_volatility self now = Inr 0"
  using assms by (auto simp add: get_current_volatility_def Let_def)

theorem get_current_volatility_cold_start_witness:
  "length (price_history fresh_calculator) = 0
   \<and> get_current_volatility fresh_calculator monday_noon = Inr 0
   \<and> length (price_history stale_calculator) = 10
   \<and> length (filter (\<lambda>p. pp_timestamp p >
         monday_noon - timedelta_minutes (volatility_window_minutes (vc_settings stale_calculator)))
        (price_history stale_calculator)) = 0
   \<and> get_current_volatility stale_calculator monday_noon = Inr 0"
proof -
  have a: "length (price_history fresh_calculator) = 0"
    by (simp add: fresh_calculator_def init_calculator_def)
  have b: "length (price_history stale_calculator) = 10"
    by (simp add: stale_calculator_def)
  have c: "length (filter (\<lambda>p. pp_timestamp p >
         monday_noon - timedelta_minutes (volatility_window_minutes (vc_settings stale_calculator)))
        (price_history stale_calculator)) = 0"
    by (simp add: stale_recent)
  have "get_current_volatility fresh_calculator monday_noon = Inr 0"
    by (rule get_current_volatility_cold_start) (simp add: a)
  moreover have "get_current_volatility stale_calculator monday_noon = Inr 0"
    by (rule get_current_volatility_cold_start) (simp add: c)
  ultimately show ?thesis
    using a b c by simp
qed

text \<open>
  C9. For every order notional that is not negative and every calculator with no zero
  price on record (every calculator the feed has run is one, by \<open>feed_no_zero_price\<close>;
  a zero price makes the returns raise \<^verbatim>\<open>ZeroDivisionError\<close>), \<^verbatim>\<open>calculate_slippage\<close>
  returns a value between 5 and 30.5 basis points: 5 of base, at most 0.5 of size impact,
  at most 20 of volatility impact and at most 5 for the hour of day.
\<close>

theorem calculate_slippage_bounds:
  assumes "0 \<notin> set (map pp_price (price_history self))" and "0 \<le> order_size"
  shows "\<exists>v. calculate_slippage self now order_size smb = Inr v \<and> 5 \<le> v \<and> v \<le> 61 / 2"
proof -
  obtain vol where vol: "get_current_volatility self now = Inr vol" "0 \<le> vol"
    using get_current_volatility_total [OF assms(1)] by blast
  show ?thesis
    using vol assms(2) by (auto simp add: calculate_slippage_def Let_def min_def)
qed

theorem calculate_slippage_bounds_witness:
  "0 \<notin> set (map pp_price (price_history jump_calculator)) \<and> (0::real) \<le> 100000
   \<and> (\<exists>v. calculate_slippage jump_calculator monday_0300 100000 ''BTC-USD'' = Inr v
          \<and> 5 \<le> v \<and> v \<le> 61 / 2)"
proof -
  have h: "(0::real) \<le> 100000" by simp
  from calculate_slippage_bounds [OF jump_prices_nonzero h]
  show ?thesis using jump_prices_nonzero by simp
qed

text \<open>
  C3, as the code has it. With the calculator and the clock fixed, no zero price on
  record and \<open>a < b\<close>, the slippage of \<open>a\<close> is at most the slippage of \<open>b\<close>:
  \<^verbatim>\<open>calculate_slippage\<close> is non-decreasing in the notional. (Rounding keeps this
  order; it does not keep a strict one, and the size impact is capped.)
\<close>

theorem calculate_slippage_monotone:
  assumes "0 \<notin> set (map pp_price (price_history self))" and "a < b"
  shows "\<exists>x y. calculate_slippage self now a smb = Inr x \<and>
               calculate_slippage self now b smb = Inr y \<and>
               x \<le> y"
proof -
  obtain vol where vol: "get_current_volatility self now = Inr vol"
    using get_current_volatility_total [OF assms(1)] by blast
  show ?thesis
    using vol assms(2) by (auto simp add: calculate_slippage_def Let_def min_def)
qed

theorem calculate_slippage_monotone_witness:
  "0 \<notin> set (map pp_price (price_history jump_calculator)) \<and> (1000::real) < 100000
   \<and> (\<exists>x y. calculate_slippage jump_calculator monday_0300 1000 ''BTC-USD'' = Inr x \<and>
              calculate_slippage jump_calculator monday_0300 100000 ''BTC-USD'' = Inr y \<and>
              x \<le> y)"
proof -
  have h: "(1000::real) < 100000" by simp
  from calculate_slippage_monotone [OF jump_prices_nonzero h, of monday_0300 "''BTC-USD''"]
  show ?thesis using jump_prices_nonzero by auto
qed

text \<open>
  C3 as the specification states it, strictly increasing in the notional, fails above
  the cap of the size impact: at 12:00:00, with no price recorded, the notionals 6000000
  and 7000000 both give 5.5 basis points.
\<close>

theorem calculate_slippage_not_strict:
  "(6000000::real) < 7000000
   \<and> calculate_slippage fresh_calculator monday_noon 6000000 ''BTC-USD'' = Inr (11 / 2)
   \<and> calculate_slippage fresh_calculator monday_noon 7000000 ''BTC-USD'' = Inr (11 / 2)"
  by (simp add: calculate_slippage_def fresh_volatility hour_monday_noon)

text \<open>
  C6. The size impact is capped at 0.5 basis points, not at 50: at 12:00:00, with no
  price recorded, a notional of 1000000 gives 5.5 basis points, where a cap of 50 would
  give 5 + 10 = 15.
\<close>

theorem calculate_slippage_size_cap:
  "calculate_slippage fresh_calculator monday_noon 1000000 ''BTC-USD'' = Inr (11 / 2)"
  by (simp add: calculate_slippage_def fresh_volatility hour_monday_noon)

lemma simple_returns_consecutive:
  "0 \<notin> set ps \<Longrightarrow> simple_returns ps = Inr (consecutive_returns ps)"
  by (induction ps rule: simple_returns.induct) (auto simp add: consecutive_returns_def)

lemma consecutive_returns_length: "length (consecutive_returns ps) = length ps - 1"
  by (simp add: consecutive_returns_def)

lemma jump_consecutive:
  "consecutive_returns (map pp_price (price_history jump_calculator)) =
     [0, 0, 0, 0, 0, 0, 0, 0, 0, 1 / 500]"
  by (simp add: jump_calculator_def consecutive_returns_def)

lemma jump_sample_std: "sample_std [0, 0, 0, 0, 0, 0, 0, 0, 0, 1 / 500] = sqrt (1 / 2500000)"
  by (simp add: sample_std_def Let_def power2_eq_square)

text \<open>
  C8, as the code has it. When at least 10 points are retained, at least 2 of them lie
  in the trailing window and no recorded price is zero, \<^verbatim>\<open>get_current_volatility\<close> is
  the population standard deviation of the simple returns between consecutive
  qualifying points (the root of the mean squared deviation, dividing by the number of
  returns, as \<^verbatim>\<open>np.std\<close> does by default), times the root of 365 * 24 * 60.
\<close>

theorem get_current_volatility_population_std:
  assumes "10 \<le> length (price_history self)"
    and "recent = filter (\<lambda>p. pp_timestamp p >
            now - timedelta_minutes (volatility_window_minutes (vc_settings self)))
          (price_history self)"
    and "2 \<le> length recent"
    and "0 \<notin> set (map pp_price (price_history self))"
    and "rs = consecutive_returns (map pp_price recent)"
    and "mean = sum_list rs / real (length rs)"
  shows "get_current_volatility self now =
           Inr (sqrt (sum_list (map (\<lambda>r. (r - mean)\<^sup>2) rs) / real (length rs))
                * sqrt (365 * 24 * 60))"
proof -
  have "0 \<notin> set (map pp_price recent)"
    using assms(2,4) by auto
  then have sr: "simple_returns (map pp_price recent) = Inr rs"
    using assms(5) by (simp add: simple_returns_consecutive)
  have "rs \<noteq> []"
    using assms(3,5) consecutive_returns_length [of "map pp_price recent"] by auto
  then show ?thesis
    using assms(1,3) sr assms(2,6)
    by (simp add: get_current_volatility_def Let_def np_std_def)
qed

theorem get_current_volatility_population_std_witness:
  "10 \<le> length (price_history jump_calculator)
   \<and> 2 \<le> length (filter (\<lambda>p. pp_timestamp p >
              monday_0300 - timedelta_minutes (volatility_window_minutes (vc_settings jump_calculator)))
            (price_history jump_calculator))
   \<and> 0 \<notin> set (map pp_price (price_history jump_calculator))
   \<and> get_current_volatility jump_calculator monday_0300 =
       Inr (sqrt (9 / 25000000) * sqrt (365 * 24 * 60))"
proof -
  have a: "10 \<le> length (price_history jump_calculator)"
    by (simp add: jump_calculator_def)
  have b: "2 \<le> length (filter (\<lambda>p. pp_timestamp p >
              monday_0300 - timedelta_minutes (volatility_window_minutes (vc_settings jump_calculator)))
            (price_history jump_calculator))"
    using a by (simp add: jump_recent)
  from get_current_volatility_population_std [OF a refl b jump_prices_nonzero refl refl]
  have "get_current_volatility jump_calculator monday_0300 =
       Inr (sqrt (9 / 25000000) * sqrt (365 * 24 * 60))"
    by (simp add: jump_recent jump_consecutive power2_eq_square)
  then show ?thesis
    using a b jump_prices_nonzero by simp
qed

text \<open>
  C8 as the specification states it fails: on the eleven ticks of \<open>jump_calculator\<close> the
  ten returns are nine times 0 and once 1/500; the code takes the root of 9/25000000
  (dividing the squared deviations by 10), the sample standard deviation is the root of
  1/2500000 (dividing by 9).
\<close>

theorem get_current_volatility_not_sample_std:
  "get_current_volatility jump_calculator monday_0300 \<noteq>
     Inr (sample_std (consecutive_returns (map pp_price
            (filter (\<lambda>p. pp_timestamp p >
               monday_0300 - timedelta_minutes (volatility_window_minutes (vc_settings jump_calculator)))
             (price_history jump_calculator))))
          * sqrt (365 * 24 * 60))"
proof -
  have "(3 / 5000 :: real) < sqrt (1 / 2500000)"
    by (rule real_less_rsqrt) (simp add: power2_eq_square)
  then have "(3 / 5000 :: real) \<noteq> sqrt (1 / 2500000)"
    by simp
  moreover have "sqrt (365 * 24 * 60) \<noteq> 0"
    by simp
  ultimately show ?thesis
    by (simp add: jump_volatility jump_recent jump_consecutive jump_sample_std)
qed

section \<open>Parsing\<close>

lemma parse_wrapped:
  "parse_order_data sample_lib [''orderData'' \<mapsto> sample_payload] =
     Inr \<lparr> orderId = ''o-1'', userId = ''u-1'', symbol = ''BTC-USD'', side = ''SELL'',
           quantity = 3, price = 40000, orderType = ''LIMIT'', timestamp = monday_0300 - 1000000 \<rparr>"
  by (simp add: parse_order_data_def sample_lib_def raise_if_none_def Order_init_def)

lemma parse_direct: "parse_order_data sample_lib direct_message = Inr direct_order"
  by (simp add: parse_order_data_def sample_lib_def raise_if_none_def direct_message_def
        getitem_def direct_order_def)

text \<open>\<^verbatim>\<open>Order(**kw)\<close> returns an order exactly when each of the eight fields validates,
  and each field of the order is then the validated value of the key of that name.\<close>

lemma Order_init_Inr:
  "Order_init lib kw = Inr order \<longleftrightarrow>
     Option.bind (kw ''orderId'') (validate_str lib) = Some (orderId order)
     \<and> Option.bind (kw ''userId'') (validate_str lib) = Some (userId order)
     \<and> Option.bind (kw ''symbol'') (validate_str lib) = Some (symbol order)
     \<and> Option.bind (kw ''side'') (validate_str lib) = Some (side order)
     \<and> Option.bind (kw ''quantity'') (validate_float lib) = Some (quantity order)
     \<and> Option.bind (kw ''price'') (validate_float lib) = Some (price order)
     \<and> Option.bind (kw ''orderType'') (validate_str lib) = Some (orderType order)
     \<and> Option.bind (kw ''timestamp'') (validate_datetime lib) = Some (timestamp order)"
proof (cases order)
  case (fields oid uid sym sd q p ot ts)
  show ?thesis
  proof (cases "Option.bind (kw ''orderId'') (validate_str lib)")
    case None then show ?thesis by (simp add: Order_init_def raise_if_none_def)
  next
    case a1: (Some x1)
    show ?thesis
    proof (cases "Option.bind (kw ''userId'') (validate_str lib)")
      case None then show ?thesis using a1 by (simp add: Order_init_def raise_if_none_def)
    next
      case a2: (Some x2)
      show ?thesis
      proof (cases "Option.bind (kw ''symbol'') (validate_str lib)")
        case None then show ?thesis using a1 a2 by (simp add: Order_init_def raise_if_none_def)
      next
        case a3: (Some x3)
        show ?thesis
        proof (cases "Option.bind (kw ''side'') (validate_str lib)")
          case None then show ?thesis using a1 a2 a3 by (simp add: Order_init_def raise_if_none_def)
        next
          case a4: (Some x4)
          show ?thesis
          proof (cases "Option.bind (kw ''quantity'') (validate_float lib)")
            case None then show ?thesis using a1 a2 a3 a4 by (simp add: Order_init_def raise_if_none_def)
          next
            case a5: (Some x5)
            show ?thesis
            proof (cases "Option.bind (kw ''price'') (validate_float lib)")
              case None then show ?thesis using a1 a2 a3 a4 a5 by (simp add: Order_init_def raise_if_none_def)
            next
              case a6: (Some x6)
              show ?thesis
              proof (cases "Option.bind (kw ''orderType'') (validate_str lib)")
                case None then show ?thesis using a1 a2 a3 a4 a5 a6 by (simp add: Order_init_def raise_if_none_def)
              next
                case a7: (Some x7)
                show ?thesis
                proof (cases "Option.bind (kw ''timestamp'') (validate_datetime lib)")
                  case None then show ?thesis using a1 a2 a3 a4 a5 a6 a7 by (simp add: Order_init_def raise_if_none_def)
                next
                  case a8: (Some x8)
                  show ?thesis using a1 a2 a3 a4 a5 a6 a7 a8 fields
                    by (auto simp add: Order_init_def raise_if_none_def)
                qed
              qed
            qed
          qed
        qed
      qed
    qed
  qed
qed

text \<open>
  C10. When the message has the key \<^verbatim>\<open>'orderData'\<close>, \<^verbatim>\<open>_parse_order_data\<close> builds
  the order from the JSON payload of that field alone. It returns (or raises) what it
  does on the message with that one field, so every other field of the message is
  ignored; and it returns an order exactly when \<^verbatim>\<open>json.loads\<close> of the payload is an
  object whose eight order keys validate, each field of the order being the validated
  value of the key of that name in that object (the last one, when a key is repeated).
\<close>

theorem parse_order_data_from_payload:
  assumes "order_data ''orderData'' = Some payload"
  shows "parse_order_data lib order_data = parse_order_data lib [''orderData'' \<mapsto> payload]
    \<and> (parse_order_data lib order_data = Inr order \<longleftrightarrow>
         (\<exists>kvs. json_loads lib payload = Some (JObject kvs)
            \<and> Option.bind (map_of (rev kvs) ''orderId'') (validate_str lib) = Some (orderId order)
            \<and> Option.bind (map_of (rev kvs) ''userId'') (validate_str lib) = Some (userId order)
            \<and> Option.bind (map_of (rev kvs) ''symbol'') (validate_str lib) = Some (symbol order)
            \<and> Option.bind (map_of (rev kvs) ''side'') (validate_str lib) = Some (side order)
            \<and> Option.bind (map_of (rev kvs) ''quantity'') (validate_float lib) = Some (quantity order)
            \<and> Option.bind (map_of (rev kvs) ''price'') (validate_float lib) = Some (price order)
            \<and> Option.bind (map_of (rev kvs) ''orderType'') (validate_str lib) = Some (orderType order)
            \<and> Option.bind (map_of (rev kvs) ''timestamp'') (validate_datetime lib) = Some (timestamp order)))"
proof -
  have ind: "parse_order_data lib order_data = parse_order_data lib [''orderData'' \<mapsto> payload]"
    using assms by (simp add: parse_order_data_def)
  have eq: "parse_order_data lib order_data =
      (case json_loads lib payload of
         None \<Rightarrow> Inl JSONDecodeError
       | Some (JObject kvs) \<Rightarrow> Order_init lib (map_of (rev kvs))
       | Some _ \<Rightarrow> Inl TypeError)"
    using assms
    by (simp add: parse_order_data_def raise_if_none_def split: option.splits json.splits)
  have "parse_order_data lib order_data = Inr order \<longleftrightarrow>
         (\<exists>kvs. json_loads lib payload = Some (JObject kvs)
            \<and> Order_init lib (map_of (rev kvs)) = Inr order)"
  proof (cases "json_loads lib payload")
    case None
    then show ?thesis using eq by simp
  next
    case (Some j)
    then show ?thesis
      using eq by (cases j) simp_all
  qed
  then show ?thesis
    using ind by (simp only: Order_init_Inr)
qed

theorem parse_order_data_from_payload_witness:
  "wrapped_message ''orderData'' = Some sample_payload
   \<and> wrapped_message ''orderId'' = Some ''o-105''
   \<and> wrapped_message ''quantity'' = Some ''2''
   \<and> json_loads sample_lib sample_payload =
       Some (JObject [(''orderId'', JString ''o-1''), (''userId'', JString ''u-1''),
                 (''symbol'', JString ''BTC-USD''), (''side'', JString ''SELL''),
                 (''quantity'', JNumber 3), (''price'', JNumber 40000),
                 (''orderType'', JString ''LIMIT''),
                 (''timestamp'', JString ''2024-01-08T02:59:59'')])
   \<and> parse_order_data sample_lib wrapped_message =
       Inr \<lparr> orderId = ''o-1'', userId = ''u-1'', symbol = ''BTC-USD'', side = ''SELL'',
             quantity = 3, price = 40000, orderType = ''LIMIT'',
             timestamp = monday_0300 - 1000000 \<rparr>"
proof -
  have h: "wrapped_message ''orderData'' = Some sample_payload"
    by (simp add: wrapped_message_def)
  have g: "wrapped_message ''orderId'' = Some ''o-105''" "wrapped_message ''quantity'' = Some ''2''"
    by (simp_all add: wrapped_message_def direct_message_def)
  have j: "json_loads sample_lib sample_payload =
       Some (JObject [(''orderId'', JString ''o-1''), (''userId'', JString ''u-1''),
                 (''symbol'', JString ''BTC-USD''), (''side'', JString ''SELL''),
                 (''quantity'', JNumber 3), (''price'', JNumber 40000),
                 (''orderType'', JString ''LIMIT''),
                 (''timestamp'', JString ''2024-01-08T02:59:59'')])"
    by (simp add: sample_lib_def)
  note t = parse_order_data_from_payload [of wrapped_message sample_payload sample_lib
      "\<lparr> orderId = ''o-1'', userId = ''u-1'', symbol = ''BTC-USD'', side = ''SELL'',
             quantity = 3, price = 40000, orderType = ''LIMIT'',
             timestamp = monday_0300 - 1000000 \<rparr>", OF h]
  have "parse_order_data sample_lib wrapped_message =
       Inr \<lparr> orderId = ''o-1'', userId = ''u-1'', symbol = ''BTC-USD'', side = ''SELL'',
             quantity = 3, price = 40000, orderType = ''LIMIT'',
             timestamp = monday_0300 - 1000000 \<rparr>"
    by (rule iffD2 [OF conjunct2 [OF t]]) (simp add: j, simp add: sample_lib_def)
  then show ?thesis
    using h g j by simp
qed

section \<open>The user-behaviour stage\<close>

lemma busy_recent:
  "filter (\<lambda>ro. ro_timestamp ro > monday_0300 - timedelta_minutes 5) (recent_orders busy_user)
     = recent_orders busy_user"
  by (simp add: busy_user_def timedelta_minutes_def)

lemma busy_behavior:
  "analyze_user_behavior busy_analyzer monday_0300 direct_order a =
     (Inr (add_risk 15 (UnusuallyLargeOrder 100) (add_risk 25 (HighOrderFrequency 11) a)),
      busy_analyzer)"
  by (simp add: analyze_user_behavior_def Let_def busy_analyzer_def busy_recent direct_order_def)
     (simp add: busy_user_def)

text \<open>
  C5, as the code has it. The stage adds 25 points when more than 10 of the user's
  recorded orders lie in the trailing 5 minutes and, besides, 5 points when the user
  has no earlier order, or else 15 points when the notional exceeds 5 times the user's
  average. The first-order and the large-order checks exclude each other, so the stage
  adds 0, 5, 15, 25, 30 or 40 points.
\<close>

theorem analyze_user_behavior_points:
  assumes "analyze_user_behavior self now order analysis = (Inr r, self')"
    and "d = (case user_analytics self (userId order) of
               None \<Rightarrow> \<lparr> total_orders = 0, total_volume = 0, recent_orders = [],
                          risk_events = 0, last_activity = now \<rparr>
             | Some d \<Rightarrow> d)"
  shows "riskScore r = riskScore analysis
           + (if 10 < length (filter (\<lambda>ro. ro_timestamp ro > now - timedelta_minutes 5)
                                (recent_orders d))
              then 25 else 0)
           + (if total_orders d = 0 then 5
              else if quantity order * price order > total_volume d / real (total_orders d) * 5
              then 15 else 0)
         \<and> riskScore r - riskScore analysis \<in> {0, 5, 15, 25, 30, 40}"
  using assms
  by (auto simp add: analyze_user_behavior_def Let_def add_risk_def split: if_splits)

theorem analyze_user_behavior_points_witness:
  "analyze_user_behavior busy_analyzer monday_0300 direct_order
      (blank_analysis direct_order monday_0300) =
     (Inr (add_risk 15 (UnusuallyLargeOrder 100)
             (add_risk 25 (HighOrderFrequency 11) (blank_analysis direct_order monday_0300))),
      busy_analyzer)
   \<and> riskScore (add_risk 15 (UnusuallyLargeOrder 100)
        (add_risk 25 (HighOrderFrequency 11) (blank_analysis direct_order monday_0300))) = 40"
proof -
  note eq = busy_behavior [of "blank_analysis direct_order monday_0300"]
  from analyze_user_behavior_points [OF eq refl]
  have "riskScore (add_risk 15 (UnusuallyLargeOrder 100)
        (add_risk 25 (HighOrderFrequency 11) (blank_analysis direct_order monday_0300)))
        - riskScore (blank_analysis direct_order monday_0300) \<in> {0, 5, 15, 25, 30, 40}"
    by blast
  then show ?thesis
    using eq by (simp add: add_risk_def blank_analysis_def)
qed

text \<open>
  C5 as the specification states it fails: no analyzer, clock and order make all three
  checks of the stage fire on one analysis.
\<close>

theorem analyze_user_behavior_never_all_three:
  "\<not> (\<exists>self now order analysis r self'.
        analyze_user_behavior self now order analysis = (Inr r, self')
        \<and> reasons analysis = []
        \<and> (\<exists>n. HighOrderFrequency n \<in> set (reasons r))
        \<and> (\<exists>x. UnusuallyLargeOrder x \<in> set (reasons r))
        \<and> FirstTimeUser \<in> set (reasons r))"
  by (auto simp add: analyze_user_behavior_def Let_def add_risk_def split: if_splits)

section \<open>The example analysis\<close>

lemma jump_vol_extreme: "1 / 10 < 3 / 5000 * sqrt (365 * 24 * 60)"
  using sqrt_minutes_per_year by simp

lemma jump_vol_pos: "0 < 3 / 5000 * sqrt (365 * 24 * 60)"
  using sqrt_minutes_per_year by simp

lemma jump_length: "length (price_history jump_calculator) = 11"
  by (simp add: jump_calculator_def)

lemma flat_std: "np_std [0, 0, 0, 0, 0, 0, 0, 0, 0] = 0"
  by (simp add: np_std_def)

lemma jump_historical:
  "historical_vols (price_history jump_calculator) (monday_0300 - timedelta_minutes 60) [0] = Inr [0]"
  by (simp add: jump_calculator_def timedelta_minutes_def monday_0300_def flat_std)

lemma jump_percentile: "get_volatility_percentile jump_calculator monday_0300 60 = Inr 100"
proof -
  have "filter (\<lambda>i. i mod 10 = 0) [0 ..< length (price_history jump_calculator) - 10] = [0]"
    by (simp add: jump_length)
  then show ?thesis
    using jump_vol_pos
    by (simp add: get_volatility_percentile_def jump_volatility Let_def jump_historical
          del: historical_vols.simps)
qed

lemma jump_slippage:
  "calculate_slippage jump_calculator monday_0300 100000 smb = Inr (61 / 2)"
  using sqrt_minutes_per_year
  by (simp add: calculate_slippage_def jump_volatility Let_def hour_monday_0300 min_def)

lemma hot_volatility_stage:
  "analyze_volatility_risk busy_analyzer monday_0300 direct_order a =
     Inr (add_risk 10 (VolatilityTopPercentile 100)
           (add_risk 30 (ExtremeVolatility (3 / 5000 * sqrt (365 * 24 * 60)))
              (a \<lparr> volatility := 3 / 5000 * sqrt (365 * 24 * 60) \<rparr>)))"
proof -
  have c: "calculator busy_analyzer = jump_calculator"
    by (simp add: busy_analyzer_def)
  have t: "extreme_volatility_threshold (vc_settings jump_calculator) = 1 / 10"
    by (simp add: jump_calculator_def default_settings_def)
  show ?thesis
    using jump_vol_extreme
    by (simp add: analyze_volatility_risk_def c jump_volatility jump_percentile Let_def t)
qed

lemma hot_slippage_stage:
  "analyze_slippage_risk busy_analyzer monday_0300 direct_order a =
     Inr (add_risk 20 (HighSlippage (61 / 2)) (a \<lparr> slippage := 61 / 20000 \<rparr>))"
proof -
  have c: "calculator busy_analyzer = jump_calculator"
    by (simp add: busy_analyzer_def)
  have q: "quantity direct_order * price direct_order = 100000"
    by (simp add: direct_order_def)
  show ?thesis
    by (simp add: analyze_slippage_risk_def c q jump_slippage Let_def)
qed

lemma jump_history_5:
  "get_price_history jump_calculator monday_0300 5 = price_history jump_calculator"
  by (simp add: get_price_history_def jump_calculator_def timedelta_minutes_def monday_0300_def)

lemma hot_market_stage:
  "analyze_market_conditions busy_analyzer monday_0300 direct_order a =
     Inr (add_risk 5 OutsideMarketHours a)"
proof -
  have c: "calculator busy_analyzer = jump_calculator"
    by (simp add: busy_analyzer_def)
  have m: "map (\<lambda>p. \<bar>pp_change p\<bar>) (drop (Suc 0) (price_history jump_calculator))
            = [0, 0, 0, 0, 0, 0, 0, 0, 0, 100]"
    by (simp add: jump_calculator_def)
  show ?thesis
    by (simp add: analyze_market_conditions_def c jump_history_5 hour_monday_0300
          weekday_monday_0300 Let_def m jump_length list_max_def direct_order_def)
qed

lemma hot_run:
  "fst (analyze_order sample_lib busy_analyzer monday_0300 (monday_0300 + 2000) direct_message) =
     Inr \<lparr> ra_orderId = ''o-105'', ra_userId = ''u-7'', ra_symbol = ''BTC-USD'',
           riskScore = 105, verdict = ''REJECT'',
           volatility = 3 / 5000 * sqrt (365 * 24 * 60), slippage = 61 / 20000,
           reasons = [HighRiskScore 105,
                      ExtremeVolatility (3 / 5000 * sqrt (365 * 24 * 60)),
                      VolatilityTopPercentile 100,
                      HighSlippage (61 / 2),
                      HighOrderFrequency 11,
                      UnusuallyLargeOrder 100,
                      OutsideMarketHours],
           processingTimeMs = 2, ra_timestamp = monday_0300 \<rparr>"
proof -
  have u: "getitem (user_analytics busy_analyzer) (userId direct_order) = Inr busy_user"
    by (simp add: getitem_def busy_analyzer_def direct_order_def)
  show ?thesis
    by (simp add: analyze_order_def parse_direct Let_def hot_volatility_stage hot_slippage_stage
          busy_behavior hot_market_stage update_user_analytics_def u determine_verdict_def
          add_risk_def elapsed_ms_def)
       (simp add: direct_order_def)
qed

section \<open>Score and verdict\<close>

lemma determine_verdict_score: "riskScore (determine_verdict a) = riskScore a"
  by (simp add: determine_verdict_def Let_def)

lemma determine_verdict_verdict:
  "verdict (determine_verdict a) =
     (if riskScore a \<ge> 70 then ''REJECT'' else if riskScore a \<ge> 30 then ''WARN'' else ''ACCEPT'')"
  by (simp add: determine_verdict_def Let_def)

text \<open>The examples of the specification: 75 and 70 are rejected, 45 and 30 draw a
  warning, 10 is accepted.\<close>

lemma determine_verdict_examples:
  "verdict (determine_verdict (a \<lparr> riskScore := 75 \<rparr>)) = ''REJECT''"
  "verdict (determine_verdict (a \<lparr> riskScore := 70 \<rparr>)) = ''REJECT''"
  "verdict (determine_verdict (a \<lparr> riskScore := 45 \<rparr>)) = ''WARN''"
  "verdict (determine_verdict (a \<lparr> riskScore := 30 \<rparr>)) = ''WARN''"
  "verdict (determine_verdict (a \<lparr> riskScore := 10 \<rparr>)) = ''ACCEPT''"
  by (simp_all add: determine_verdict_verdict)

text \<open>
  C1. On every analysis that \<^verbatim>\<open>analyze_order\<close> returns, the verdict is a function of
  the accumulated score: \<^verbatim>\<open>REJECT\<close> from 70 on, \<^verbatim>\<open>WARN\<close> from 30 on and below 70,
  \<^verbatim>\<open>ACCEPT\<close> below 30.
\<close>

theorem analyze_order_verdict:
  assumes "analyze_order lib self now finish order_data = (Inr analysis, self')"
  shows "verdict analysis =
           (if riskScore analysis \<ge> 70 then ''REJECT''
            else if riskScore analysis \<ge> 30 then ''WARN''
            else ''ACCEPT'')"
proof -
  from assms obtain a where "analysis = (determine_verdict a) \<lparr> processingTimeMs := elapsed_ms now finish \<rparr>"
    by (auto simp add: analyze_order_def Let_def split: sum.splits prod.splits)
  then show ?thesis
    by (simp add: determine_verdict_score determine_verdict_verdict)
qed

theorem analyze_order_verdict_witness:
  "(\<exists>a s. analyze_order sample_lib busy_analyzer monday_0300 (monday_0300 + 2000) direct_message
            = (Inr a, s)
          \<and> riskScore a = 105 \<and> verdict a = ''REJECT'')"
proof -
  obtain a s where eq:
    "analyze_order sample_lib busy_analyzer monday_0300 (monday_0300 + 2000) direct_message = (Inr a, s)"
    and sc: "riskScore a = 105"
    using hot_run
    by (cases "analyze_order sample_lib busy_analyzer monday_0300 (monday_0300 + 2000) direct_message")
       auto
  from analyze_order_verdict [OF eq] sc have "verdict a = ''REJECT''"
    by simp
  then show ?thesis
    using eq sc by blast
qed

lemma volatility_stage_points:
  assumes "analyze_volatility_risk self now order a = Inr a'"
  shows "riskScore a' - riskScore a \<in> {0, 10, 15, 25, 30, 40}"
  using assms
  by (auto simp add: analyze_volatility_risk_def Let_def add_risk_def bind_eq_Inr split: if_splits)

lemma slippage_stage_points:
  assumes "analyze_slippage_risk self now order a = Inr a'"
  shows "riskScore a' - riskScore a \<in> {0, 10, 20}"
  using assms
  by (auto simp add: analyze_slippage_risk_def Let_def add_risk_def bind_eq_Inr split: if_splits)

lemma user_stage_points:
  assumes "analyze_user_behavior self now order a = (Inr a', self')"
  shows "riskScore a' - riskScore a \<in> {0, 5, 15, 25, 30, 40}"
  using assms
  by (auto simp add: analyze_user_behavior_def Let_def add_risk_def split: if_splits)

lemma market_stage_points:
  assumes "analyze_market_conditions self now order a = Inr a'"
  shows "riskScore a' - riskScore a \<in> {0, 5, 10, 15, 20, 25}"
  using assms
  by (auto simp add: analyze_market_conditions_def Let_def add_risk_def split: if_splits list.splits)

lemma analyze_order_score_range:
  assumes "analyze_order lib self now finish order_data = (Inr analysis, self')"
  shows "0 \<le> riskScore analysis \<and> riskScore analysis \<le> 125"
proof -
  from assms obtain order a1 a2 a3 a4 s3 where
    p: "parse_order_data lib order_data = Inr order"
    and v: "analyze_volatility_risk self now order (blank_analysis order now) = Inr a1"
    and s: "analyze_slippage_risk self now order a1 = Inr a2"
    and u: "analyze_user_behavior self now order a2 = (Inr a3, s3)"
    and m: "analyze_market_conditions s3 now order a3 = Inr a4"
    and r: "analysis = (determine_verdict a4) \<lparr> processingTimeMs := elapsed_ms now finish \<rparr>"
    by (auto simp add: analyze_order_def Let_def bind_eq_Inr blank_analysis_def
          split: sum.splits prod.splits)
  have z: "riskScore (blank_analysis order now) = 0"
    by (simp add: blank_analysis_def)
  have b1: "riskScore (blank_analysis order now) \<le> riskScore a1
            \<and> riskScore a1 \<le> riskScore (blank_analysis order now) + 40"
    using volatility_stage_points [OF v] by auto
  have b2: "riskScore a1 \<le> riskScore a2 \<and> riskScore a2 \<le> riskScore a1 + 20"
    using slippage_stage_points [OF s] by auto
  have b3: "riskScore a2 \<le> riskScore a3 \<and> riskScore a3 \<le> riskScore a2 + 40"
    using user_stage_points [OF u] by auto
  have b4: "riskScore a3 \<le> riskScore a4 \<and> riskScore a4 \<le> riskScore a3 + 25"
    using market_stage_points [OF m] by auto
  have "riskScore analysis = riskScore a4"
    using r by (simp add: determine_verdict_score)
  then show ?thesis
    using z b1 b2 b3 b4 by linarith
qed

text \<open>
  C4. \<^verbatim>\<open>RiskAnalysis\<close> declares \<^verbatim>\<open>riskScore\<close> with \<^verbatim>\<open>Field(ge=0, le=100)\<close>, and the
  contributions are never negative, but nothing clamps their sum: for a user with eleven
  orders in the last five minutes, on extreme volatility at 03:00, the returned analysis
  has the score 30 + 10 + 20 + 25 + 15 + 5 = 105.
\<close>

theorem analyze_order_score_above_100:
  "\<exists>a. fst (analyze_order sample_lib busy_analyzer monday_0300 (monday_0300 + 2000) direct_message)
          = Inr a
       \<and> riskScore a = 105 \<and> \<not> riskScore a \<le> 100 \<and> verdict a = ''REJECT''"
  by (simp add: hot_run)

section \<open>The stream consumer\<close>

lemma process_message_failed:
  assumes "fst (analyze_order lib (analyzer self) (io_now w) (io_finish w) f) = Inl e"
  shows "redis_client (process_message lib self (m, f, w)) = redis_client self"
  using assms
  by (auto simp add: process_message_def process_single_message_def split: prod.splits sum.splits)

lemma process_message_store_failed:
  assumes "fst (analyze_order lib (analyzer self) (io_now w) (io_finish w) f) = Inr a"
    and "\<not> hset_ok w" and "xack_ok w"
  shows "redis_client (process_message lib self (m, f, w)) =
           (redis_client self) \<lparr> acked := acked (redis_client self) @ [m] \<rparr>"
  using assms
  by (auto simp add: process_message_def process_single_message_def store_analysis_result_def
        split: prod.splits sum.splits)

lemma fresh_percentile: "get_volatility_percentile fresh_calculator now m = Inr 50"
  by (simp add: get_volatility_percentile_def fresh_volatility)
     (simp add: fresh_calculator_def init_calculator_def)

lemma fresh_slippage: "calculate_slippage fresh_calculator monday_noon 100000 smb = Inr (11 / 2)"
  by (simp add: calculate_slippage_def fresh_volatility hour_monday_noon)

lemma weekday_monday_noon: "weekday monday_noon = 0"
  by (simp add: weekday_def monday_noon_def)

lemma fresh_run:
  "fst (analyze_order sample_lib (init_analyzer fresh_calculator) monday_noon (monday_noon + 1500)
          direct_message) =
     Inr \<lparr> ra_orderId = ''o-105'', ra_userId = ''u-7'', ra_symbol = ''BTC-USD'',
           riskScore = 5, verdict = ''ACCEPT'', volatility = 0, slippage = 11 / 20000,
           reasons = [LowRiskScore 5, FirstTimeUser],
           processingTimeMs = 1, ra_timestamp = monday_noon \<rparr>"
proof -
  have h: "get_price_history fresh_calculator monday_noon 5 = []"
    by (simp add: get_price_history_def fresh_calculator_def init_calculator_def)
  have t: "extreme_volatility_threshold (vc_settings fresh_calculator) = 1 / 10"
     "high_volatility_threshold (vc_settings fresh_calculator) = 1 / 20"
    by (simp_all add: fresh_calculator_def init_calculator_def default_settings_def)
  have q: "quantity direct_order * price direct_order = 100000"
    by (simp add: direct_order_def)
  show ?thesis
    by (simp add: analyze_order_def parse_direct Let_def init_analyzer_def
          analyze_volatility_risk_def fresh_volatility fresh_percentile t
          analyze_slippage_risk_def q fresh_slippage
          analyze_user_behavior_def analyze_market_conditions_def h hour_monday_noon
          weekday_monday_noon update_user_analytics_def getitem_def determine_verdict_def
          add_risk_def elapsed_ms_def)
       (simp add: direct_order_def)
qed

text \<open>
  C2. A message whose analysis fails is neither stored nor acknowledged
  (\<open>process_message_failed\<close>), but a failure of the store is swallowed by
  \<^verbatim>\<open>_store_analysis_result\<close>: when \<^verbatim>\<open>HSET\<close> fails, nothing is stored and the message
  is acknowledged all the same.
\<close>

theorem process_messages_acks_unstored:
  "redis_client (process_messages sample_lib fresh_consumer
      [(''orders:stream'', [(''1704715200000-0'', direct_message, hset_outage)])]) =
     \<lparr> hashes = Map.empty, expiries = Map.empty, acked = [''1704715200000-0''] \<rparr>"
proof -
  have a: "analyzer fresh_consumer = init_analyzer fresh_calculator"
    by (simp add: fresh_consumer_def)
  have "redis_client (process_message sample_lib fresh_consumer
          (''1704715200000-0'', direct_message, hset_outage)) =
        (redis_client fresh_consumer) \<lparr> acked := acked (redis_client fresh_consumer) @ [''1704715200000-0''] \<rparr>"
    by (rule process_message_store_failed) (simp_all add: a hset_outage_def fresh_run)
  then show ?thesis
    by (simp add: process_messages_def fresh_consumer_def empty_redis_def)
qed

end
